theory Spec2Isabelle
  imports Complex_Main "HOL-Library.Sublist"
begin

section \<open>Python string primitives used by \<^verbatim>\<open>scripts/tools.py\<close>\<close>

text \<open>
  A Python \<^verbatim>\<open>str\<close> is modelled as a \<^typ>\<open>string\<close> whose characters are the code points
  0..255 (the Latin-1 range of Unicode, which contains ASCII). On that range
  \<^verbatim>\<open>str.isspace\<close> holds for exactly twelve code points and \<^verbatim>\<open>str.lower\<close> moves the
  upper-case letters A..Z and the accented capitals 192..222 (except the multiplication
  sign 215) up by 32 and leaves every other character alone.
\<close>

definition isspace :: "char \<Rightarrow> bool" where
  "isspace c = ((of_char c :: nat) \<in> {9, 10, 11, 12, 13, 28, 29, 30, 31, 32, 133, 160})"

definition lower_char :: "char \<Rightarrow> char" where
  "lower_char c =
     (let n = (of_char c :: nat)
      in if (65 \<le> n \<and> n \<le> 90) \<or> (192 \<le> n \<and> n \<le> 222 \<and> n \<noteq> 215)
         then char_of (n + 32) else c)"

definition lower :: "string \<Rightarrow> string" where
  "lower s = map lower_char s"

text \<open>\<^verbatim>\<open>s.strip()\<close>: leading and trailing whitespace removed.\<close>

definition strip :: "string \<Rightarrow> string" where
  "strip s = rev (dropWhile isspace (rev (dropWhile isspace s)))"

text \<open>
  \<^verbatim>\<open>p in s\<close> on two strings: \<open>p\<close> occurs in \<open>s\<close> as a contiguous block. The scan tries
  every start position from the left; the empty string occurs everywhere.
\<close>

fun py_in :: "string \<Rightarrow> string \<Rightarrow> bool" where
  "py_in p [] = (p = [])"
| "py_in p (c # cs) = (prefix p (c # cs) \<or> py_in p cs)"

text \<open>\<^verbatim>\<open>d.get(k, default)\<close> on a dictionary kept as an association list in insertion order.\<close>

definition dict_get :: "(string \<times> int) list \<Rightarrow> string \<Rightarrow> int \<Rightarrow> int" where
  "dict_get d k dflt = (case map_of d k of Some v \<Rightarrow> v | None \<Rightarrow> dflt)"

definition keys :: "(string \<times> int) list \<Rightarrow> string list" where
  "keys d = map fst d"

section \<open>Fuzzy normalisation of categorical inputs\<close>

text \<open>
  \<^verbatim>\<open>
  def _normalize_input(val, options, default):
      val_clean = val.strip().lower()
      for opt in options:
          if val_clean in opt.lower() or opt.lower() in val_clean:
              return opt
      return default
  \<close>
  The test of one option is \<open>fuzzy_match\<close>; the loop is \<open>normalize_loop\<close>.
\<close>

definition fuzzy_match :: "string \<Rightarrow> string \<Rightarrow> bool" where
  "fuzzy_match val_clean opt = (py_in val_clean (lower opt) \<or> py_in (lower opt) val_clean)"

fun normalize_loop :: "string \<Rightarrow> string list \<Rightarrow> string \<Rightarrow> string" where
  "normalize_loop val_clean [] dflt = dflt"
| "normalize_loop val_clean (opt # opts) dflt =
     (if fuzzy_match val_clean opt then opt else normalize_loop val_clean opts dflt)"

definition normalize_input :: "string \<Rightarrow> string list \<Rightarrow> string \<Rightarrow> string" where
  "normalize_input val options dflt = normalize_loop (lower (strip val)) options dflt"

section \<open>The feature encoder of the two inference paths\<close>

definition weather_map :: "(string \<times> int) list" where
  "weather_map = [(''Sunny'', 0), (''Cloudy'', 1), (''Rainy'', 2), (''Snow'', 3)]"

definition traffic_map :: "(string \<times> int) list" where
  "traffic_map = [(''Low'', 0), (''Medium'', 1), (''High'', 2)]"

definition exp_map :: "(string \<times> int) list" where
  "exp_map = [(''Junior'', 0), (''Senior'', 1), (''Expert'', 2)]"

text \<open>The one-row data frame handed to the model, columns in the order of the source.\<close>

record input_df =
  distance_km :: real
  weather_code :: int
  traffic_code :: int
  exp_code :: int
  vehicle_type_Scooter :: int
  vehicle_type_Van :: int

text \<open>Lines 52--68 of \<^verbatim>\<open>predict_delivery_time\<close>.\<close>

definition predict_input_df :: "string \<Rightarrow> string \<Rightarrow> real \<Rightarrow> string \<Rightarrow> string \<Rightarrow> input_df" where
  "predict_input_df vehicle_type weather dkm traffic_level driver_experience =
     (let weather' = normalize_input weather (keys weather_map) ''Cloudy'';
          traffic_level' = normalize_input traffic_level (keys traffic_map) ''Medium'';
          driver_experience' = normalize_input driver_experience (keys exp_map) ''Senior''
      in \<lparr> distance_km = dkm,
           weather_code = dict_get weather_map weather' 1,
           traffic_code = dict_get traffic_map traffic_level' 1,
           exp_code = dict_get exp_map driver_experience' 1,
           vehicle_type_Scooter = (if py_in ''Scooter'' vehicle_type then 1 else 0),
           vehicle_type_Van = (if py_in ''Van'' vehicle_type then 1 else 0) \<rparr>)"

text \<open>Lines 133--149 of \<^verbatim>\<open>explain_delivery_prediction\<close>, translated on their own.\<close>

definition explain_input_df :: "string \<Rightarrow> string \<Rightarrow> real \<Rightarrow> string \<Rightarrow> string \<Rightarrow> input_df" where
  "explain_input_df vehicle_type weather dkm traffic_level driver_experience =
     (let weather' = normalize_input weather (keys weather_map) ''Cloudy'';
          traffic_level' = normalize_input traffic_level (keys traffic_map) ''Medium'';
          driver_experience' = normalize_input driver_experience (keys exp_map) ''Senior''
      in \<lparr> distance_km = dkm,
           weather_code = dict_get weather_map weather' 1,
           traffic_code = dict_get traffic_map traffic_level' 1,
           exp_code = dict_get exp_map driver_experience' 1,
           vehicle_type_Scooter = (if py_in ''Scooter'' vehicle_type then 1 else 0),
           vehicle_type_Van = (if py_in ''Van'' vehicle_type then 1 else 0) \<rparr>)"

section \<open>Numeric primitives\<close>

text \<open>
  The generator and the two inference operations are modelled over the real numbers: what
  is proved of them does not depend on rounding. The distance tool and the drift monitor
  are modelled over IEEE 754 doubles (next section), with rounding, overflow, the
  infinities and NaN, since their behaviour on some inputs is decided there.
\<close>

datatype py_exception =
    FileNotFoundError
  | JSONDecodeError
  | KeyError string
  | TypeError
  | ZeroDivisionError
  | ValueError
  | OverflowError

text \<open>
  Sequencing of statements that may raise: the first exception leaves the block, a value
  goes on to the rest.
\<close>

definition raising :: "py_exception + 'a \<Rightarrow> ('a \<Rightarrow> py_exception + 'b) \<Rightarrow> py_exception + 'b" where
  "raising r k = (case r of Inl e \<Rightarrow> Inl e | Inr v \<Rightarrow> k v)"

text \<open>Rounding to the nearest integer, ties to the even neighbour, as \<^verbatim>\<open>round\<close> does.\<close>

definition round_half_even :: "real \<Rightarrow> int" where
  "round_half_even x =
     (let f = \<lfloor>x\<rfloor>; d = x - of_int f
      in if d < 1 / 2 then f else if 1 / 2 < d then f + 1 else if even f then f else f + 1)"

text \<open>\<^verbatim>\<open>round(x, ndigits)\<close> for a non-negative number of digits.\<close>

definition py_round :: "real \<Rightarrow> nat \<Rightarrow> real" where
  "py_round x ndigits = of_int (round_half_even (x * 10 ^ ndigits)) / 10 ^ ndigits"

text \<open>\<^verbatim>\<open>int(x)\<close> on a float truncates towards zero.\<close>

definition py_int :: "real \<Rightarrow> int" where
  "py_int x = (if 0 \<le> x then \<lfloor>x\<rfloor> else \<lceil>x\<rceil>)"

text \<open>\<^verbatim>\<open>max(a, b)\<close> keeps the first argument unless the second is strictly larger.\<close>

definition py_max :: "real \<Rightarrow> real \<Rightarrow> real" where
  "py_max a b = (if a < b then b else a)"

definition radians :: "real \<Rightarrow> real" where
  "radians x = x * pi / 180"

text \<open>\<^verbatim>\<open>math.sqrt\<close> raises \<^verbatim>\<open>ValueError\<close> on a negative argument.\<close>

definition math_sqrt :: "real \<Rightarrow> py_exception + real" where
  "math_sqrt x = (if x < 0 then Inl ValueError else Inr (sqrt x))"

text \<open>\<^verbatim>\<open>math.atan2(y, x)\<close>: the angle of the point \<open>(x, y)\<close>, with \<open>atan2(0, 0) = 0\<close>.\<close>

definition atan2 :: "real \<Rightarrow> real \<Rightarrow> real" where
  "atan2 y x =
     (if 0 < x then arctan (y / x)
      else if x < 0 then (if 0 \<le> y then arctan (y / x) + pi else arctan (y / x) - pi)
      else if 0 < y then pi / 2
      else if y < 0 then - (pi / 2)
      else 0)"

section \<open>IEEE 754 doubles\<close>

text \<open>
  A Python float is a finite double, one of the two infinities, or NaN. A finite double
  is kept as the real number it denotes (the two signed zeros are not told apart: no
  operation below depends on the sign of a zero).
\<close>

datatype pyfloat = Fin real | PInf | NInf | NaN

text \<open>
  Rounding to the nearest double, ties to the even significand. A real \<open>x\<close> with
  \<^verbatim>\<open>2^e <= |x| < 2^(e+1)\<close> lies on a grid of spacing \<^verbatim>\<open>2^(e-52)\<close>, and the spacing
  never falls below \<^verbatim>\<open>2^(-1074)\<close> (the subnormal range); a rounded value of magnitude
  \<^verbatim>\<open>2^1024\<close> or more is an infinity.
\<close>

definition quantum :: "real \<Rightarrow> real" where
  "quantum x = 2 powr of_int (max \<lfloor>log 2 \<bar>x\<bar>\<rfloor> (- 1022) - 52)"

definition rnd :: "real \<Rightarrow> pyfloat" where
  "rnd x =
     (if x = 0 then Fin 0
      else (let r = of_int (round_half_even (x / quantum x)) * quantum x
            in if 2 ^ 1024 \<le> \<bar>r\<bar> then (if 0 < x then PInf else NInf) else Fin r))"

text \<open>
The arithmetic of floats: the exact result, rounded; the special values as IEEE 754 fixes them.
\<close>

definition fneg :: "pyfloat \<Rightarrow> pyfloat" where
  "fneg a = (case a of Fin x \<Rightarrow> Fin (- x) | PInf \<Rightarrow> NInf | NInf \<Rightarrow> PInf | NaN \<Rightarrow> NaN)"

definition fabs :: "pyfloat \<Rightarrow> pyfloat" where
  "fabs a = (case a of Fin x \<Rightarrow> Fin \<bar>x\<bar> | PInf \<Rightarrow> PInf | NInf \<Rightarrow> PInf | NaN \<Rightarrow> NaN)"

fun fadd :: "pyfloat \<Rightarrow> pyfloat \<Rightarrow> pyfloat" where
  "fadd (Fin x) (Fin y) = rnd (x + y)"
| "fadd NaN b = NaN"
| "fadd a NaN = NaN"
| "fadd PInf NInf = NaN"
| "fadd NInf PInf = NaN"
| "fadd PInf b = PInf"
| "fadd a PInf = PInf"
| "fadd NInf b = NInf"
| "fadd a NInf = NInf"

definition fsub :: "pyfloat \<Rightarrow> pyfloat \<Rightarrow> pyfloat" where
  "fsub a b = fadd a (fneg b)"



fun ieee_div :: "pyfloat \<Rightarrow> pyfloat \<Rightarrow> pyfloat" where
  "ieee_div (Fin x) (Fin y) = rnd (x / y)"
| "ieee_div NaN b = NaN"
| "ieee_div a NaN = NaN"
| "ieee_div (Fin x) b = Fin 0"
| "ieee_div PInf (Fin y) = (if 0 \<le> y then PInf else NInf)"
| "ieee_div NInf (Fin y) = (if 0 \<le> y then NInf else PInf)"
| "ieee_div a b = NaN"

text \<open>
  \<^verbatim>\<open>a / b\<close> on floats raises \<^verbatim>\<open>ZeroDivisionError\<close> for a zero divisor, whatever the dividend.
\<close>

definition float_truediv :: "pyfloat \<Rightarrow> pyfloat \<Rightarrow> py_exception + pyfloat" where
  "float_truediv a b = (if b = Fin 0 then Inl ZeroDivisionError else Inr (ieee_div a b))"

text \<open>
  \<^verbatim>\<open>a > c\<close> and \<^verbatim>\<open>a == b\<close>: every comparison with NaN is false.
\<close>

definition float_gt :: "pyfloat \<Rightarrow> real \<Rightarrow> bool" where
  "float_gt a c = (case a of Fin x \<Rightarrow> c < x | PInf \<Rightarrow> True | NInf \<Rightarrow> False | NaN \<Rightarrow> False)"


text \<open>
  \<^verbatim>\<open>a / b\<close> on two integers is the correctly rounded quotient; it raises
  \<^verbatim>\<open>OverflowError\<close> when that is not finite, as does the conversion of an integer that is
  too large for a float.
\<close>

definition finite_or_overflow :: "pyfloat \<Rightarrow> py_exception + pyfloat" where
  "finite_or_overflow a = (case a of Fin r \<Rightarrow> Inr (Fin r) | PInf \<Rightarrow> Inl OverflowError
                           | NInf \<Rightarrow> Inl OverflowError | NaN \<Rightarrow> Inl OverflowError)"

definition int_truediv :: "int \<Rightarrow> int \<Rightarrow> py_exception + pyfloat" where
  "int_truediv a b =
     (if b = 0 then Inl ZeroDivisionError else finite_or_overflow (rnd (of_int a / of_int b)))"

definition int_to_float :: "int \<Rightarrow> py_exception + pyfloat" where
  "int_to_float n = finite_or_overflow (rnd (of_int n))"

section \<open>The two inference operations\<close>

text \<open>
  The fitted model and the explainer are process-wide values that may be absent
  (\<^verbatim>\<open>None\<close>); both are opaque third-party objects and enter as parameters. The returned
  text is modelled by its content: the rounded prediction, respectively the base value and
  the displayed contributions.
\<close>

definition predict_delivery_time ::
  "(input_df \<Rightarrow> real) option \<Rightarrow> string \<Rightarrow> string \<Rightarrow> real \<Rightarrow> string \<Rightarrow> string \<Rightarrow> string + real" where
  "predict_delivery_time MODEL vehicle_type weather dkm traffic_level driver_experience =
     (case MODEL of
        None \<Rightarrow> Inl ''Error: Model not loaded.''
      | Some predict \<Rightarrow>
          Inr (py_round
                 (predict (predict_input_df vehicle_type weather dkm traffic_level driver_experience)) 1))"

definition feature_names :: "string list" where
  "feature_names = [''distance_km'', ''weather_code'', ''traffic_code'', ''exp_code'',
                    ''vehicle_type_Scooter'', ''vehicle_type_Van'']"

definition explain_delivery_prediction ::
  "(input_df \<Rightarrow> real \<times> real list) option \<Rightarrow> string \<Rightarrow> string \<Rightarrow> real \<Rightarrow> string \<Rightarrow> string
     \<Rightarrow> string + real \<times> (string \<times> real) list" where
  "explain_delivery_prediction EXPLAINER vehicle_type weather dkm traffic_level driver_experience =
     (case EXPLAINER of
        None \<Rightarrow> Inl ''Error: SHAP Explainer not loaded.''
      | Some explainer \<Rightarrow>
          (let (base_value, vals) =
                 explainer (explain_input_df vehicle_type weather dkm traffic_level driver_experience)
           in Inr (base_value,
                   filter (\<lambda>(name, impact). 1 / 10 < \<bar>impact\<bar>) (zip feature_names vals))))"

section \<open>Great-circle distance\<close>
















section \<open>Drift monitor\<close>

text \<open>
  The value that \<^verbatim>\<open>json.load\<close> returns. An integer literal becomes a Python integer, any
  other number a float; beyond the JSON grammar the parser accepts the literals
  \<^verbatim>\<open>NaN\<close>, \<^verbatim>\<open>Infinity\<close> and \<^verbatim>\<open>-Infinity\<close>.
\<close>

datatype json =
    JNull
  | JBool bool
  | JInt int
  | JFloat pyfloat
  | JStr string
  | JArr "json list"
  | JObj "(string \<times> json) list"

text \<open>
  The baseline statistics are read from a file on every call. The file is a parameter:
  either \<^verbatim>\<open>open\<close> or \<^verbatim>\<open>json.load\<close> raises (\<^verbatim>\<open>FileNotFoundError\<close> for a missing file,
  \<^verbatim>\<open>JSONDecodeError\<close> for text the parser rejects), or the file parses to a value.
\<close>

datatype stats_file = Unreadable py_exception | Parsed json

definition load_stats :: "stats_file \<Rightarrow> py_exception + json" where
  "load_stats f = (case f of Unreadable e \<Rightarrow> Inl e | Parsed j \<Rightarrow> Inr j)"

text \<open>
  \<^verbatim>\<open>stats[key]\<close>: a dictionary is looked up (of a repeated key the parser keeps the last
  value), every other value raises.
\<close>

definition subscript :: "json \<Rightarrow> string \<Rightarrow> py_exception + json" where
  "subscript j key =
     (case j of
        JObj kvs \<Rightarrow> (case map_of (rev kvs) key of None \<Rightarrow> Inl (KeyError key) | Some v \<Rightarrow> Inr v)
      | _ \<Rightarrow> Inl TypeError)"

text \<open>
  The operand of float arithmetic: a float, an integer converted to a float, or a Boolean
  counting as 0 or 1; anything else raises \<^verbatim>\<open>TypeError\<close>.
\<close>

definition to_float :: "json \<Rightarrow> py_exception + pyfloat" where
  "to_float j =
     (case j of
        JFloat a \<Rightarrow> Inr a
      | JInt n \<Rightarrow> int_to_float n
      | JBool b \<Rightarrow> Inr (Fin (if b then 1 else 0))
      | _ \<Rightarrow> Inl TypeError)"

text \<open>
  The report carries the baseline mean, today's mean, the z-score and the verdict sentence;
  the alternative is the text \<^verbatim>\<open>Error checking drift: ...\<close> with the exception caught.
\<close>

datatype drift_result =
    Report pyfloat pyfloat pyfloat string
  | Error_checking_drift py_exception

definition drift_msg :: string where
  "drift_msg = ''Drift detected. Model may be invalid. Retrain recommended.''"

definition stable_msg :: string where
  "stable_msg = ''Data is stable. Model is healthy.''"

text \<open>
The body of the \<^verbatim>\<open>try\<close> block, statement by statement; \<open>Inl\<close> is a raised exception.
\<close>

definition drift_body :: "stats_file \<Rightarrow> int list \<Rightarrow> py_exception + drift_result" where
  "drift_body f daily_delivery_times =
     raising (load_stats f) (\<lambda>stats.
     raising (subscript stats ''mean_duration'') (\<lambda>base_mean.
     raising (subscript stats ''std_duration'') (\<lambda>base_std.
     raising (int_truediv (sum_list daily_delivery_times)
                          (int (length daily_delivery_times))) (\<lambda>new_mean.
     raising (to_float base_mean) (\<lambda>m.
     raising (to_float base_std) (\<lambda>s.
     raising (float_truediv (fsub new_mean m) s) (\<lambda>z_score.
       Inr (Report m new_mean z_score
              (if float_gt (fabs z_score) 2 then drift_msg else stable_msg)))))))))"

text \<open>
\<^verbatim>\<open>except Exception as e\<close> turns every exception of the body into the error text.
\<close>

definition check_data_drift :: "stats_file \<Rightarrow> int list \<Rightarrow> drift_result" where
  "check_data_drift f daily_delivery_times =
     (case drift_body f daily_delivery_times of
        Inl e \<Rightarrow> Error_checking_drift e
      | Inr r \<Rightarrow> r)"

text \<open>
The file as \<^verbatim>\<open>train.py\<close> writes it.
\<close>

definition training_stats :: "real \<Rightarrow> real \<Rightarrow> stats_file" where
  "training_stats m s =
     Parsed (JObj [(''mean_duration'', JFloat (Fin m)), (''std_duration'', JFloat (Fin s)),
                   (''description'', JStr ''Baseline delivery stats from training data'')])"

text \<open>
A statistics value is usable when both keys are present and hold numbers.
\<close>

definition is_number :: "json \<Rightarrow> bool" where
  "is_number j = (case j of JInt _ \<Rightarrow> True | JFloat _ \<Rightarrow> True | JBool _ \<Rightarrow> True | _ \<Rightarrow> False)"

definition well_formed_stats :: "json \<Rightarrow> bool" where
  "well_formed_stats j =
     (case subscript j ''mean_duration'' of
        Inl _ \<Rightarrow> False
      | Inr a \<Rightarrow>
          (case subscript j ''std_duration'' of
             Inl _ \<Rightarrow> False
           | Inr b \<Rightarrow> is_number a \<and> is_number b))"


text \<open>
  The value of the text \<^verbatim>\<open>{"mean_duration": NaN, "std_duration": 10}\<close>, which is not JSON
  and which the parser accepts.
\<close>

definition nan_stats :: json where
  "nan_stats = JObj [(''mean_duration'', JFloat NaN), (''std_duration'', JInt 10)]"

section \<open>Synthetic trip generator\<close>

text \<open>The constants of \<^verbatim>\<open>generate_data.py\<close>; the letter \<open>o\<close> with diaeresis is code point 246.\<close>

definition DISTRICTS :: "(string \<times> real \<times> real) list" where
  "DISTRICTS =
     [(''Mitte'', (52.5200, 13.4050)),
      (''Kreuzberg'', (52.4981, 13.3918)),
      (''Prenzlauer Berg'', (52.5423, 13.4140)),
      (''Charlottenburg'', (52.5167, 13.3000)),
      (''Schoneberg'', (52.4822, 13.3571)),
      (''Friedrichshain'', (52.5117, 13.4333)),
      (''Neuk'' @ [CHR 0xF6] @ ''lln'', (52.4800, 13.4333)),
      (''Pankow'', (52.5667, 13.4000)),
      (''Lichtenberg'', (52.5333, 13.5000)),
      (''Spandau'', (52.5333, 13.1975)),
      (''Tempelhof'', (52.4667, 13.3833)),
      (''Steglitz'', (52.4492, 13.3217))]"

definition VEHICLES :: "string list" where
  "VEHICLES = [''Bike'', ''Scooter'', ''Van'']"

definition WEATHER :: "string list" where
  "WEATHER = [''Sunny'', ''Cloudy'', ''Rainy'', ''Snow'']"

definition TRAFFIC :: "string list" where
  "TRAFFIC = [''Low'', ''Medium'', ''High'']"

definition DRIVER_EXP :: "string list" where
  "DRIVER_EXP = [''Junior'', ''Senior'', ''Expert'']"

text \<open>\<^verbatim>\<open>DISTRICTS[name]\<close> raises \<^verbatim>\<open>KeyError\<close> for a name that is not a key.\<close>

definition district :: "string \<Rightarrow> py_exception + real \<times> real" where
  "district name = (case map_of DISTRICTS name of None \<Rightarrow> Inl (KeyError name) | Some p \<Rightarrow> Inr p)"

text \<open>
The term \<open>a\<close> of the generator's \<^verbatim>\<open>haversine\<close>.
\<close>

definition haversine_a :: "real \<Rightarrow> real \<Rightarrow> real \<Rightarrow> real \<Rightarrow> real" where
  "haversine_a lat1 lon1 lat2 lon2 =
     (let phi1 = radians lat1; phi2 = radians lat2;
          dphi = radians (lat2 - lat1);
          dlambda = radians (lon2 - lon1)
      in (sin (dphi / 2))\<^sup>2 + cos phi1 * cos phi2 * (sin (dlambda / 2))\<^sup>2)"

text \<open>\<^verbatim>\<open>haversine\<close> of the generator: the same formula, not rounded.\<close>

definition haversine :: "real \<Rightarrow> real \<Rightarrow> real \<Rightarrow> real \<Rightarrow> py_exception + real" where
  "haversine lat1 lon1 lat2 lon2 =
     (let R = 6371; a = haversine_a lat1 lon1 lat2 lon2
      in raising (math_sqrt a) (\<lambda>sa.
         raising (math_sqrt (1 - a)) (\<lambda>sb.
           (let c = 2 * atan2 sa sb in Inr (R * c)))))"

text \<open>
  One iteration of the loop draws from the random number generators in a fixed order.
  The outcome of these draws is a parameter of the model, one field per call that reaches
  the row (the draw for the unused variable \<^verbatim>\<open>name\<close> is left out).
\<close>

record draws =
  d_start_dist :: string
  d_end_dist :: string
  d_start_lat :: real
  d_start_lon :: real
  d_end_lat :: real
  d_end_lon :: real
  d_weather :: string
  d_vehicle :: string
  d_random_hour :: int
  d_traffic :: string
  d_driver_exp :: string
  d_noise :: real
  d_days :: int
  d_minute :: int

definition is_rush_hour :: "int \<Rightarrow> bool" where
  "is_rush_hour h = ((8 \<le> h \<and> h \<le> 9) \<or> (17 \<le> h \<and> h \<le> 19))"

text \<open>The outcomes the samplers can deliver.\<close>

definition valid_draws :: "draws \<Rightarrow> bool" where
  "valid_draws d =
     (d_start_dist d \<in> set (map fst DISTRICTS) \<and>
      d_end_dist d \<in> set (map fst DISTRICTS) \<and>
      - 0.03 \<le> d_start_lat d \<and> d_start_lat d \<le> 0.03 \<and>
      - 0.03 \<le> d_start_lon d \<and> d_start_lon d \<le> 0.03 \<and>
      - 0.03 \<le> d_end_lat d \<and> d_end_lat d \<le> 0.03 \<and>
      - 0.03 \<le> d_end_lon d \<and> d_end_lon d \<le> 0.03 \<and>
      d_weather d \<in> set WEATHER \<and>
      d_vehicle d \<in> set VEHICLES \<and>
      8 \<le> d_random_hour d \<and> d_random_hour d \<le> 22 \<and>
      d_traffic d \<in> set (if is_rush_hour (d_random_hour d)
                            then [''High'', ''Medium''] else [''Low'', ''Medium'', ''High'']) \<and>
      d_driver_exp d \<in> set DRIVER_EXP \<and>
      - 2 \<le> d_noise d \<and> d_noise d \<le> 10 \<and>
      0 \<le> d_days d \<and> d_days d \<le> 30 \<and>
      0 \<le> d_minute d \<and> d_minute d \<le> 59)"

text \<open>
  A row of the training corpus. The order id is the number after \<^verbatim>\<open>ORD-\<close>; the timestamp
  is kept as days before the current date, hour and minute.
\<close>

record trip =
  order_id :: int
  pickup_district :: string
  pickup_lat :: real
  pickup_lon :: real
  dropoff_district :: string
  dropoff_lat :: real
  dropoff_lon :: real
  distance_km :: real
  vehicle_type :: string
  weather :: string
  traffic_level :: string
  driver_experience :: string
  timestamp :: "int \<times> int \<times> int"
  delivery_duration_mins :: int

definition speed_of :: "string \<Rightarrow> real" where
  "speed_of vehicle =
     (if vehicle = ''Bike'' then 15 else if vehicle = ''Scooter'' then 25 else 30)"

definition multipliers_of :: "string \<Rightarrow> string \<Rightarrow> string \<Rightarrow> real" where
  "multipliers_of w t x =
     (let m0 = 1;
          m1 = (if w = ''Rainy'' then m0 * 1.2 else m0);
          m2 = (if w = ''Snow'' then m1 * 1.5 else m1);
          m3 = (if t = ''Medium'' then m2 * 1.2 else m2);
          m4 = (if t = ''High'' then m3 * 1.5 else m3);
          m5 = (if x = ''Junior'' then m4 * 1.1 else m4);
          m6 = (if x = ''Expert'' then m5 * 0.9 else m5)
      in m6)"

text \<open>\<^verbatim>\<open>timestamp.replace(hour=h, minute=m)\<close> raises \<^verbatim>\<open>ValueError\<close> outside the clock.\<close>

definition replace_time :: "int \<Rightarrow> int \<Rightarrow> int \<Rightarrow> py_exception + int \<times> int \<times> int" where
  "replace_time days h m =
     (if 0 \<le> h \<and> h \<le> 23 \<and> 0 \<le> m \<and> m \<le> 59 then Inr (days, h, m) else Inl ValueError)"

text \<open>The body of the loop for index \<open>i\<close>.\<close>

definition generate_row :: "nat \<Rightarrow> draws \<Rightarrow> py_exception + trip" where
  "generate_row i d =
     raising (district (d_start_dist d)) (\<lambda>start_center.
     raising (district (d_end_dist d)) (\<lambda>end_center.
       (let start_lat = fst start_center + d_start_lat d;
            start_lon = snd start_center + d_start_lon d;
            end_lat = fst end_center + d_end_lat d;
            end_lon = snd end_center + d_end_lon d
        in raising (haversine start_lat start_lon end_lat end_lon) (\<lambda>dist_km.
           (let base_duration = (dist_km / speed_of (d_vehicle d)) * 60;
                final_duration =
                  base_duration * multipliers_of (d_weather d) (d_traffic d) (d_driver_exp d)
                    + d_noise d
            in raising (replace_time (d_days d) (d_random_hour d) (d_minute d)) (\<lambda>ts.
                 Inr \<lparr> order_id = 1000 + int i,
                       pickup_district = d_start_dist d,
                       pickup_lat = py_round start_lat 4,
                       pickup_lon = py_round start_lon 4,
                       dropoff_district = d_end_dist d,
                       dropoff_lat = py_round end_lat 4,
                       dropoff_lon = py_round end_lon 4,
                       distance_km = py_round dist_km 2,
                       vehicle_type = d_vehicle d,
                       weather = d_weather d,
                       traffic_level = d_traffic d,
                       driver_experience = d_driver_exp d,
                       timestamp = ts,
                       delivery_duration_mins = py_int (py_max 5 final_duration) \<rparr>))))))"

text \<open>
  \<^verbatim>\<open>for i in range(NUM_ROWS): ... data.append({...})\<close>, one element of the list of draws
  per iteration.
\<close>

fun generate_loop :: "nat \<Rightarrow> draws list \<Rightarrow> trip list \<Rightarrow> py_exception + trip list" where
  "generate_loop i [] data = Inr data"
| "generate_loop i (d # ds) data =
     raising (generate_row i d) (\<lambda>row. generate_loop (Suc i) ds (data @ [row]))"

definition generate_data :: "draws list \<Rightarrow> py_exception + trip list" where
  "generate_data ds = generate_loop 0 ds []"

text \<open>
  An outcome with pickup and dropoff at the centre of the same district, used to run the
  generator on a concrete input.
\<close>

definition sample_draws :: draws where
  "sample_draws =
     \<lparr> d_start_dist = ''Mitte'', d_end_dist = ''Mitte'',
       d_start_lat = 0, d_start_lon = 0, d_end_lat = 0, d_end_lon = 0,
       d_weather = ''Rainy'', d_vehicle = ''Van'', d_random_hour = 12,
       d_traffic = ''Low'', d_driver_exp = ''Senior'', d_noise = 3,
       d_days = 1, d_minute = 30 \<rparr>"

section \<open>Facts about the string primitives\<close>

lemma py_in_iff_sublist: "py_in p s \<longleftrightarrow> sublist p s"
  by (induction s) (auto simp: sublist_Cons_right)

lemma py_in_iff_decomp: "py_in p s \<longleftrightarrow> (\<exists>before after. s = before @ p @ after)"
  by (simp add: py_in_iff_sublist sublist_def)


lemma normalize_loop_result:
  "normalize_loop v opts dflt \<in> set opts \<or> normalize_loop v opts dflt = dflt"
  by (induction opts) auto

lemma both_substrings_long:
  assumes "py_in ''Scooter'' v" and "py_in ''Van'' v"
  shows "10 \<le> length v"
proof -
  from assms obtain p1 s1 p2 s2
    where a: "v = p1 @ ''Scooter'' @ s1" and b: "v = p2 @ ''Van'' @ s2"
    unfolding py_in_iff_decomp by blast
  then have "p1 @ (''Scooter'' @ s1) = p2 @ (''Van'' @ s2)" by simp
  then obtain us where
    "(p1 = p2 @ us \<and> us @ ''Scooter'' @ s1 = ''Van'' @ s2) \<or>
     (p1 @ us = p2 \<and> ''Scooter'' @ s1 = us @ ''Van'' @ s2)"
    unfolding append_eq_append_conv2 by blast
  then show ?thesis
  proof
    assume h: "p1 = p2 @ us \<and> us @ ''Scooter'' @ s1 = ''Van'' @ s2"
    then have "3 \<le> length us"
      by (auto simp: append_eq_Cons_conv)
    moreover have "length v = length p1 + 7 + length s1" using a by simp
    moreover have "length p1 = length p2 + length us" using h by simp
    ultimately show ?thesis by linarith
  next
    assume h: "p1 @ us = p2 \<and> ''Scooter'' @ s1 = us @ ''Van'' @ s2"
    then have "7 \<le> length us"
      by (auto simp: Cons_eq_append_conv)
    moreover have "length v = length p2 + 3 + length s2" using b by simp
    moreover have "length p2 = length p1 + length us" using h by auto
    ultimately show ?thesis by linarith
  qed
qed

section \<open>Facts about the distance formula\<close>

lemma haversine_a_same: "haversine_a lat lon lat lon = 0"
  by (simp add: haversine_a_def radians_def)

lemma py_round_zero: "py_round 0 n = 0"
  by (simp add: py_round_def round_half_even_def)

lemma convex_unit:
  fixes A B s :: real
  assumes "0 \<le> A" "A \<le> 1" "0 \<le> B" "B \<le> 1" "0 \<le> s" "s \<le> 1"
  shows "0 \<le> (1 - s) * A + s * B" and "(1 - s) * A + s * B \<le> 1"
proof -
  show "0 \<le> (1 - s) * A + s * B" using assms by simp
  have "(1 - s) * A \<le> (1 - s) * 1" using assms by (intro mult_left_mono) auto
  moreover have "s * B \<le> s * 1" using assms by (intro mult_left_mono) auto
  ultimately show "(1 - s) * A + s * B \<le> 1" by simp
qed

lemma haversine_a_range: "0 \<le> haversine_a lat1 lon1 lat2 lon2 \<and> haversine_a lat1 lon1 lat2 lon2 \<le> 1"
proof -
  define p1 where "p1 = radians lat1"
  define p2 where "p2 = radians lat2"
  define s where "s = (sin (radians (lon2 - lon1) / 2))\<^sup>2"
  define A where "A = (1 - cos (p2 - p1)) / 2"
  define B where "B = (1 + cos (p2 + p1)) / 2"
  have dphi: "radians (lat2 - lat1) = p2 - p1"
    by (simp add: radians_def p1_def p2_def field_simps)
  have "cos (p2 - p1) = 1 - 2 * (sin ((p2 - p1) / 2))\<^sup>2"
  proof -
    have e: "2 * ((p2 - p1) / 2) = p2 - p1" by simp
    show ?thesis by (subst e[symmetric]) (rule cos_double_sin)
  qed
  then have sinA: "(sin ((p2 - p1) / 2))\<^sup>2 = A" by (simp add: A_def)
  have cc: "cos p1 * cos p2 = B - A"
    by (simp add: A_def B_def cos_diff cos_add field_simps)
  have a_eq: "haversine_a lat1 lon1 lat2 lon2 = (1 - s) * A + s * B"
    unfolding haversine_a_def Let_def dphi sinA
    by (simp add: p1_def[symmetric] p2_def[symmetric] s_def[symmetric] cc algebra_simps)
  have s0: "0 \<le> s" by (simp add: s_def)
  have s1: "s \<le> 1" unfolding s_def by (simp add: abs_square_le_1 abs_sin_le_one)
  have cA: "cos (p2 - p1) \<le> 1" "- 1 \<le> cos (p2 - p1)" by (rule cos_le_one, rule cos_ge_minus_one)
  have cB: "cos (p2 + p1) \<le> 1" "- 1 \<le> cos (p2 + p1)" by (rule cos_le_one, rule cos_ge_minus_one)
  have A0: "0 \<le> A" unfolding A_def using cA by (simp; linarith)
  have A1: "A \<le> 1" unfolding A_def using cA by (simp; linarith)
  have B0: "0 \<le> B" unfolding B_def using cB by (simp; linarith)
  have B1: "B \<le> 1" unfolding B_def using cB by (simp; linarith)
  show ?thesis unfolding a_eq using convex_unit[OF A0 A1 B0 B1 s0 s1] by simp
qed

lemma atan2_nonneg: "0 \<le> y \<Longrightarrow> 0 \<le> x \<Longrightarrow> 0 \<le> atan2 y x"
  by (simp add: atan2_def zero_le_arctan_iff)

lemma haversine_total: "\<exists>x. haversine lat1 lon1 lat2 lon2 = Inr x \<and> 0 \<le> x"
proof -
  let ?a = "haversine_a lat1 lon1 lat2 lon2"
  have r: "0 \<le> ?a" "?a \<le> 1" using haversine_a_range by auto
  then have "haversine lat1 lon1 lat2 lon2 = Inr (6371 * (2 * atan2 (sqrt ?a) (sqrt (1 - ?a))))"
    by (simp add: haversine_def raising_def math_sqrt_def Let_def)
  moreover have "0 \<le> atan2 (sqrt ?a) (sqrt (1 - ?a))" using r by (intro atan2_nonneg) auto
  ultimately show ?thesis by simp
qed

lemma haversine_nonneg: "haversine lat1 lon1 lat2 lon2 = Inr x \<Longrightarrow> 0 \<le> x"
  using haversine_total[of lat1 lon1 lat2 lon2] by auto

lemma round_half_even_nonneg: "0 \<le> x \<Longrightarrow> 0 \<le> round_half_even x"
  by (auto simp: round_half_even_def Let_def)

lemma py_round_nonneg: "0 \<le> x \<Longrightarrow> 0 \<le> py_round x n"
  by (simp add: py_round_def round_half_even_nonneg)

lemma py_int_max5: "5 \<le> py_int (py_max 5 x)"
  by (auto simp: py_int_def py_max_def le_floor_iff)

lemma generate_row_inv:
  assumes "generate_row i d = Inr row"
  shows "5 \<le> delivery_duration_mins row \<and> 0 \<le> trip.distance_km row"
proof -
  from assms obtain sc ec dk ts where
    hv: "haversine (fst sc + d_start_lat d) (snd sc + d_start_lon d) (fst ec + d_end_lat d) (snd ec + d_end_lon d) = Inr dk"
    and dur: "delivery_duration_mins row = py_int (py_max 5 ((dk / speed_of (d_vehicle d)) * 60 * multipliers_of (d_weather d) (d_traffic d) (d_driver_exp d) + d_noise d))"
    and dist: "trip.distance_km row = py_round dk 2"
    by (auto simp: generate_row_def raising_def Let_def split: sum.splits)
  from hv have "0 \<le> dk" by (rule haversine_nonneg)
  then show ?thesis by (simp add: dur dist py_int_max5 py_round_nonneg)
qed

lemma generate_loop_inv:
  assumes "generate_loop i ds acc = Inr data" "\<forall>r \<in> set acc. 5 \<le> delivery_duration_mins r \<and> 0 \<le> trip.distance_km r"
  shows "\<forall>r \<in> set data. 5 \<le> delivery_duration_mins r \<and> 0 \<le> trip.distance_km r"
  using assms
proof (induction ds arbitrary: i acc)
  case Nil
  then show ?case by simp
next
  case (Cons d ds)
  from Cons.prems(1) obtain row where r: "generate_row i d = Inr row"
    and l: "generate_loop (Suc i) ds (acc @ [row]) = Inr data"
    by (auto simp: raising_def split: sum.splits)
  have "\<forall>r \<in> set (acc @ [row]). 5 \<le> delivery_duration_mins r \<and> 0 \<le> trip.distance_km r"
    using Cons.prems(2) generate_row_inv[OF r] by auto
  from Cons.IH[OF l this] show ?case .
qed

lemma district_valid: "n \<in> set (map fst DISTRICTS) \<Longrightarrow> \<exists>p. district n = Inr p"
  by (cases "map_of DISTRICTS n") (auto simp: district_def map_of_eq_None_iff)

lemma generate_row_total:
  assumes "valid_draws d"
  shows "\<exists>row. generate_row i d = Inr row"
proof -
  from assms obtain sc ec where sc: "district (d_start_dist d) = Inr sc" and ec: "district (d_end_dist d) = Inr ec"
    using district_valid unfolding valid_draws_def by blast
  obtain dk where hv: "haversine (fst sc + d_start_lat d) (snd sc + d_start_lon d) (fst ec + d_end_lat d) (snd ec + d_end_lon d) = Inr dk"
    using haversine_total by blast
  have "\<exists>ts. replace_time (d_days d) (d_random_hour d) (d_minute d) = Inr ts"
    using assms by (simp add: valid_draws_def replace_time_def)
  then show ?thesis using sc ec hv
    by (auto simp: generate_row_def raising_def Let_def)
qed

lemma generate_loop_total:
  "\<forall>d \<in> set ds. valid_draws d \<Longrightarrow> \<exists>data. generate_loop i ds acc = Inr data \<and> length data = length acc + length ds"
proof (induction ds arbitrary: i acc)
  case Nil then show ?case by simp
next
  case (Cons d ds)
  from Cons.prems have vd: "valid_draws d" and vds: "\<forall>d \<in> set ds. valid_draws d" by simp_all
  from generate_row_total[OF vd, of i] obtain row where r: "generate_row i d = Inr row" by blast
  from Cons.IH[OF vds, of "Suc i" "acc @ [row]"] obtain data where "generate_loop (Suc i) ds (acc @ [row]) = Inr data \<and> length data = length (acc @ [row]) + length ds"
    by blast
  then show ?case using r by (simp add: raising_def)
qed

section \<open>Facts about rounding to a double\<close>


lemma quantum_pos: "0 < quantum x" by (simp add: quantum_def)


lemma round_half_even_of_int: "round_half_even (of_int n) = n"
  by (simp add: round_half_even_def)





lemma floor_le_round_half_even: "\<lfloor>y\<rfloor> \<le> round_half_even y"
  by (simp add: round_half_even_def Let_def)


lemma two_powr_floor_log_le: "x \<noteq> 0 \<Longrightarrow> 2 powr of_int \<lfloor>log 2 \<bar>x\<bar>\<rfloor> \<le> \<bar>x\<bar>"
  using floor_log_eq_powr_iff[of "\<bar>x\<bar>" 2 "\<lfloor>log 2 \<bar>x\<bar>\<rfloor>"] by simp



lemma rnd_overflow:
  assumes "2 ^ 1024 \<le> x"
  shows "rnd x = PInf"
proof -
  have x0: "0 < x" using assms by (smt (verit) zero_less_power)
  let ?L = "\<lfloor>log 2 \<bar>x\<bar>\<rfloor>"
  have "(1024::real) \<le> log 2 x"
    using le_log_iff[of 2 x 1024] x0 assms by (simp add: powr_realpow)
  then have L: "1024 \<le> ?L" using x0 by (simp add: le_floor_iff)
  then have "max ?L (- 1022) = ?L" by (intro max_absorb1) linarith
  then have q: "quantum x = 2 powr (of_int ?L + (- 52))" unfolding quantum_def by simp
  have qq: "quantum x * 2 ^ 52 = 2 powr of_int ?L"
    unfolding q powr_add using powr_int[of "2::real" "- 52"] by simp
  have q0: "0 < quantum x" by (simp add: quantum_def)
  have "2 powr of_int ?L \<le> x" using two_powr_floor_log_le[of x] x0 by simp
  then have "2 ^ 52 \<le> x / quantum x" using qq q0 by (simp add: field_simps)
  then have "(2::int) ^ 52 \<le> \<lfloor>x / quantum x\<rfloor>" by (simp add: le_floor_iff)
  then have n: "(2::int) ^ 52 \<le> round_half_even (x / quantum x)"
    using floor_le_round_half_even[of "x / quantum x"] by linarith
  have "(2::real) ^ 1024 = 2 powr of_int 1024" by (simp add: powr_realpow)
  also have "\<dots> \<le> 2 powr of_int ?L" using L by (intro powr_mono) auto
  also have "\<dots> = 2 ^ 52 * quantum x" using qq by simp
  also have "\<dots> \<le> of_int (round_half_even (x / quantum x)) * quantum x"
  proof -
    have "(of_int ((2::int) ^ 52) :: real) \<le> of_int (round_half_even (x / quantum x))"
      using n by (simp only: of_int_le_iff)
    then have "(2::real) ^ 52 \<le> of_int (round_half_even (x / quantum x))" by simp
    then show ?thesis using q0 by (intro mult_right_mono) simp_all
  qed
  finally have "2 ^ 1024 \<le> \<bar>of_int (round_half_even (x / quantum x)) * quantum x\<bar>" by linarith
  then show ?thesis using x0 by (simp add: rnd_def Let_def)
qed

lemma rnd_dyadic:
  assumes "\<bar>m\<bar> < 2 ^ 53" and "k \<le> 1074"
  shows "rnd (of_int m / 2 ^ k) = Fin (of_int m / 2 ^ k)"
proof (cases "m = 0")
  case True
  then show ?thesis by (simp add: rnd_def)
next
  case False
  let ?x = "of_int m / 2 ^ k :: real"
  let ?L = "\<lfloor>log 2 \<bar>?x\<bar>\<rfloor>"
  let ?E = "max ?L (- 1022) - 52"
  have x0: "?x \<noteq> 0" using False by simp
  have "\<bar>?x\<bar> < 2 ^ 53 / 2 ^ k"
    using assms(1) by (simp add: abs_divide divide_strict_right_mono of_int_abs[symmetric] del: of_int_abs)
  also have "\<dots> = 2 powr (53 - real k)"
    by (simp add: powr_diff powr_realpow)
  finally have "log 2 \<bar>?x\<bar> < 53 - real k"
    using x0 by (simp add: log_less_iff)
  then have "?L < 53 - int k" by (simp add: floor_less_iff)
  then have E: "?E \<le> - int k" using assms(2) by simp
  define j where "j = nat (- int k - ?E)"
  have Ej: "?E = - int k - int j" using E by (simp add: j_def)
  have "quantum ?x = 2 powr of_int (- int k - int j)"
    unfolding quantum_def Ej ..
  also have "of_int (- int k - int j) = - real (k + j)" by simp
  also have "2 powr (- real (k + j)) = 1 / 2 ^ (k + j)"
    by (simp only: powr_minus powr_realpow zero_less_numeral inverse_eq_divide)
  finally have q: "quantum ?x = 1 / (2 ^ k * 2 ^ j)" by (simp add: power_add)
  have div: "?x / quantum ?x = of_int (m * 2 ^ j)"
    unfolding q by simp
  have r: "of_int (round_half_even (?x / quantum ?x)) * quantum ?x = ?x"
    unfolding div round_half_even_of_int unfolding q by simp
  have "\<bar>?x\<bar> < 2 ^ 53" 
  proof -
    have "(1::real) \<le> 2 ^ k" by simp
    then have "\<bar>of_int m\<bar> / 2 ^ k \<le> \<bar>of_int m :: real\<bar> / 1"
      by (intro divide_left_mono) auto
    then have "\<bar>?x\<bar> \<le> \<bar>of_int m\<bar>" by (simp add: abs_divide)
    also have "\<dots> < 2 ^ 53" using assms(1) by (metis of_int_less_iff of_int_numeral of_int_power of_int_abs)
    finally show ?thesis .
  qed
  also have "\<dots> \<le> (2::real) ^ 1024" by simp
  finally have "\<not> 2 ^ 1024 \<le> \<bar>?x\<bar>" by simp
  then show ?thesis using x0 unfolding rnd_def Let_def r by simp
qed

lemma rnd_int_small: "\<bar>n\<bar> < 2 ^ 53 \<Longrightarrow> rnd (of_int n) = Fin (of_int n)"
  using rnd_dyadic[of n 0] by simp

lemma rnd_numeral: "\<bar>numeral n :: int\<bar> < 2 ^ 53 \<Longrightarrow> rnd (numeral n) = Fin (numeral n)"
  using rnd_int_small[of "numeral n"] by simp

lemma rnd_half: "\<bar>n\<bar> < 2 ^ 53 \<Longrightarrow> rnd (of_int n / 2) = Fin (of_int n / 2)"
  using rnd_dyadic[of n 1] by simp

lemma int_truediv_overflow:
  assumes "0 < b" and "2 ^ 1024 * real_of_int b \<le> real_of_int a"
  shows "int_truediv a b = Inl OverflowError"
proof -
  have "(2::real) ^ 1024 \<le> of_int a / of_int b"
    using assms by (simp add: pos_le_divide_eq)
  then have "rnd (of_int a / of_int b) = PInf" by (rule rnd_overflow)
  then show ?thesis using assms(1) by (simp add: int_truediv_def finite_or_overflow_def)
qed

section \<open>Facts about the distance tool\<close>

lemma fneg_simps [simp]:
  "fneg (Fin x) = Fin (- x)" "fneg PInf = NInf" "fneg NInf = PInf" "fneg NaN = NaN"
  by (simp_all add: fneg_def)



































section \<open>Properties of the feature encoder\<close>

text \<open>
  C2, as the code has it. Both inference paths set the scooter indicator and the van
  indicator by two independent substring tests on the raw vehicle type, so both are 1
  exactly for a string that contains \<^verbatim>\<open>Scooter\<close> as well as \<^verbatim>\<open>Van\<close>. The two words
  share no letter, so such a string has at least ten characters: for every shorter
  string, hence for each of the categories Bike, Scooter and Van, the indicators are
  never both 1.
\<close>

theorem indicators_exclusive:
  "((vehicle_type_Scooter (predict_input_df v w d t x) = 1 \<and> vehicle_type_Van (predict_input_df v w d t x) = 1)
      \<longleftrightarrow> (\<exists>p s. v = p @ ''Scooter'' @ s) \<and> (\<exists>p s. v = p @ ''Van'' @ s)) \<and>
   ((vehicle_type_Scooter (explain_input_df v w d t x) = 1 \<and> vehicle_type_Van (explain_input_df v w d t x) = 1)
      \<longleftrightarrow> (\<exists>p s. v = p @ ''Scooter'' @ s) \<and> (\<exists>p s. v = p @ ''Van'' @ s)) \<and>
   (length v < 10 \<longrightarrow>
      \<not> (vehicle_type_Scooter (predict_input_df v w d t x) = 1 \<and> vehicle_type_Van (predict_input_df v w d t x) = 1) \<and>
      \<not> (vehicle_type_Scooter (explain_input_df v w d t x) = 1 \<and> vehicle_type_Van (explain_input_df v w d t x) = 1))"
proof -
  have sc: "(\<exists>p s. v = p @ ''Scooter'' @ s) \<longleftrightarrow> py_in ''Scooter'' v"
    by (rule py_in_iff_decomp[symmetric])
  have vn: "(\<exists>p s. v = p @ ''Van'' @ s) \<longleftrightarrow> py_in ''Van'' v"
    by (rule py_in_iff_decomp[symmetric])
  have short: "length v < 10 \<Longrightarrow> \<not> (py_in ''Scooter'' v \<and> py_in ''Van'' v)"
    using both_substrings_long[of v] by auto
  show ?thesis
    unfolding sc vn using short
    by (auto simp add: predict_input_df_def explain_input_df_def Let_def)
qed

text \<open>
  The vehicle type \<^verbatim>\<open>Van\<close> of the end-to-end scenario: van indicator 1, and not both.
\<close>

theorem indicators_exclusive_witness:
  "length ''Van'' < 10 \<and>
   \<not> (vehicle_type_Scooter (predict_input_df ''Van'' ''Rain'' 5 ''High'' ''Junior'') = 1 \<and>
      vehicle_type_Van (predict_input_df ''Van'' ''Rain'' 5 ''High'' ''Junior'') = 1) \<and>
   vehicle_type_Van (predict_input_df ''Van'' ''Rain'' 5 ''High'' ''Junior'') = 1"
proof -
  have h: "length ''Van'' < 10" by simp
  have "vehicle_type_Van (predict_input_df ''Van'' ''Rain'' 5 ''High'' ''Junior'') = 1"
    by (simp add: predict_input_df_def Let_def)
  then show ?thesis
    using h indicators_exclusive[of "''Van''" "''Rain''" 5 "''High''" "''Junior''"] by blast
qed

text \<open>
  The invariant "never both" as stated for every raw string fails: the input
  \<^verbatim>\<open>ScooterVan\<close> sets both indicators, in the prediction and in the explanation path.
\<close>

theorem both_indicators_counterexample:
  "vehicle_type_Scooter (predict_input_df ''ScooterVan'' ''Sunny'' 5 ''Low'' ''Senior'') = 1 \<and>
   vehicle_type_Van (predict_input_df ''ScooterVan'' ''Sunny'' 5 ''Low'' ''Senior'') = 1 \<and>
   vehicle_type_Scooter (explain_input_df ''ScooterVan'' ''Sunny'' 5 ''Low'' ''Senior'') = 1 \<and>
   vehicle_type_Van (explain_input_df ''ScooterVan'' ''Sunny'' 5 ''Low'' ''Senior'') = 1"
  by (simp add: predict_input_df_def explain_input_df_def Let_def)

text \<open>
  C3, as the code has it. The inputs \<^verbatim>\<open>rain\<close> and \<^verbatim>\<open>RAIN\<close> normalise to \<^verbatim>\<open>Rainy\<close>
  and get the weather code 2 of the exact input \<^verbatim>\<open>Rainy\<close>, in both paths. The input
  \<^verbatim>\<open>raining\<close> neither contains a lower-cased option nor is contained in one; it falls
  back to \<^verbatim>\<open>Cloudy\<close>, code 1.
\<close>

theorem rain_synonyms:
  "normalize_input ''rain'' (keys weather_map) ''Cloudy'' = ''Rainy'' \<and>
   normalize_input ''RAIN'' (keys weather_map) ''Cloudy'' = ''Rainy'' \<and>
   weather_code (predict_input_df v ''rain'' d t x) = 2 \<and>
   weather_code (predict_input_df v ''RAIN'' d t x) = 2 \<and>
   weather_code (predict_input_df v ''Rainy'' d t x) = 2 \<and>
   weather_code (explain_input_df v ''rain'' d t x) = 2 \<and>
   weather_code (explain_input_df v ''RAIN'' d t x) = 2 \<and>
   weather_code (explain_input_df v ''Rainy'' d t x) = 2 \<and>
   normalize_input ''raining'' (keys weather_map) ''Cloudy'' = ''Cloudy'' \<and>
   weather_code (predict_input_df v ''raining'' d t x) = 1 \<and>
   weather_code (explain_input_df v ''raining'' d t x) = 1"
  by (simp add: predict_input_df_def explain_input_df_def Let_def) code_simp

text \<open>
  The input \<^verbatim>\<open>raining\<close> does not normalise to \<^verbatim>\<open>Rainy\<close> and does not get code 2.
\<close>

theorem raining_counterexample:
  "normalize_input ''raining'' (keys weather_map) ''Cloudy'' \<noteq> ''Rainy'' \<and>
   weather_code (predict_input_df ''Van'' ''raining'' 5 ''High'' ''Junior'') \<noteq> 2 \<and>
   weather_code (explain_input_df ''Van'' ''raining'' 5 ''High'' ''Junior'') \<noteq> 2"
  by (simp add: predict_input_df_def explain_input_df_def Let_def) code_simp



text \<open>
  C9. For the same raw inputs the prediction path and the explanation path build the same
  encoded row; in particular the weather, traffic and experience codes agree.
\<close>

theorem paths_encode_identically:
  "predict_input_df v w d t x = explain_input_df v w d t x \<and>
   weather_code (predict_input_df v w d t x) = weather_code (explain_input_df v w d t x) \<and>
   traffic_code (predict_input_df v w d t x) = traffic_code (explain_input_df v w d t x) \<and>
   exp_code (predict_input_df v w d t x) = exp_code (explain_input_df v w d t x)"
  by (simp add: predict_input_df_def explain_input_df_def)

text \<open>
  C10. In both paths the scooter indicator is 1 exactly when the raw vehicle type
  contains the block \<^verbatim>\<open>Scooter\<close>, the van indicator exactly when it contains \<^verbatim>\<open>Van\<close>,
  letter case included; every other input, such as \<^verbatim>\<open>scooter\<close> or \<^verbatim>\<open>van\<close>, gets both
  indicators 0, the encoding of the Bike category.
\<close>

theorem vehicle_type_exact_substring:
  "vehicle_type_Scooter (predict_input_df v w d t x) = (if (\<exists>p s. v = p @ ''Scooter'' @ s) then 1 else 0) \<and>
   vehicle_type_Van (predict_input_df v w d t x) = (if (\<exists>p s. v = p @ ''Van'' @ s) then 1 else 0) \<and>
   vehicle_type_Scooter (explain_input_df v w d t x) = (if (\<exists>p s. v = p @ ''Scooter'' @ s) then 1 else 0) \<and>
   vehicle_type_Van (explain_input_df v w d t x) = (if (\<exists>p s. v = p @ ''Van'' @ s) then 1 else 0) \<and>
   vehicle_type_Scooter (predict_input_df ''scooter'' w d t x) = 0 \<and>
   vehicle_type_Van (predict_input_df ''scooter'' w d t x) = 0 \<and>
   vehicle_type_Scooter (predict_input_df ''van'' w d t x) = 0 \<and>
   vehicle_type_Van (predict_input_df ''van'' w d t x) = 0 \<and>
   vehicle_type_Scooter (explain_input_df ''scooter'' w d t x) = 0 \<and>
   vehicle_type_Van (explain_input_df ''scooter'' w d t x) = 0 \<and>
   vehicle_type_Scooter (explain_input_df ''van'' w d t x) = 0 \<and>
   vehicle_type_Van (explain_input_df ''van'' w d t x) = 0"
proof -
  have sc: "(\<exists>p s. v = p @ ''Scooter'' @ s) \<longleftrightarrow> py_in ''Scooter'' v"
    by (rule py_in_iff_decomp[symmetric])
  have vn: "(\<exists>p s. v = p @ ''Van'' @ s) \<longleftrightarrow> py_in ''Van'' v"
    by (rule py_in_iff_decomp[symmetric])
  show ?thesis
    unfolding sc vn by (simp add: predict_input_df_def explain_input_df_def Let_def)
qed

section \<open>Properties of the drift monitor\<close>

text \<open>
  C4, as the code has it. Let the statistics hold the float \<open>m\<close> as mean and the float
  \<open>s > 0\<close> as standard deviation, let the batch be non-empty and let its mean, rounded to
  a double, be finite. Then the monitor returns the report with that mean, with the
  z-score computed in double arithmetic (the difference rounded, then the quotient
  rounded), and with the drift sentence exactly when the absolute z-score exceeds 2, the
  stable sentence otherwise. For mean 90 and deviation 10 a batch of mean 115 has z-score
  2.5 and is drift, a batch of mean 95 has z-score 0.5 and is stable.
\<close>

theorem drift_decision_rule:
  "(subscript j ''mean_duration'' = Inr (JFloat (Fin m)) \<and>
    subscript j ''std_duration'' = Inr (JFloat (Fin s)) \<and> 0 < s \<and> ts \<noteq> [] \<and>
    rnd (of_int (sum_list ts) / of_nat (length ts)) = Fin mean \<longrightarrow>
      check_data_drift (Parsed j) ts =
        Report (Fin m) (Fin mean) (ieee_div (fsub (Fin mean) (Fin m)) (Fin s))
          (if float_gt (fabs (ieee_div (fsub (Fin mean) (Fin m)) (Fin s))) 2
           then drift_msg else stable_msg) \<and>
      (\<forall>d z. rnd (mean - m) = Fin d \<and> rnd (d / s) = Fin z \<longrightarrow>
         check_data_drift (Parsed j) ts =
           Report (Fin m) (Fin mean) (Fin z) (if 2 < \<bar>z\<bar> then drift_msg else stable_msg))) \<and>
   check_data_drift (training_stats 90 10) [110, 120] = Report (Fin 90) (Fin 115) (Fin 2.5) drift_msg \<and>
   check_data_drift (training_stats 90 10) [90, 100] = Report (Fin 90) (Fin 95) (Fin 0.5) stable_msg \<and>
   drift_msg \<noteq> stable_msg"
proof -
  have a: "rnd 115 = Fin 115" "rnd 25 = Fin 25" "rnd 95 = Fin 95" "rnd 5 = Fin 5"
    by (simp_all add: rnd_numeral)
  have b: "rnd (5 / 2) = Fin (5 / 2)" "rnd (1 / 2) = Fin (1 / 2)"
    using rnd_half[of 5] rnd_half[of 1] by simp_all
  have ex1: "check_data_drift (training_stats 90 10) [110, 120] = Report (Fin 90) (Fin 115) (Fin 2.5) drift_msg"
    by (simp add: check_data_drift_def drift_body_def raising_def load_stats_def to_float_def
        training_stats_def subscript_def int_truediv_def finite_or_overflow_def fsub_def fneg_def
        float_truediv_def a b fabs_def float_gt_def)
  have ex2: "check_data_drift (training_stats 90 10) [90, 100] = Report (Fin 90) (Fin 95) (Fin 0.5) stable_msg"
    by (simp add: check_data_drift_def drift_body_def raising_def load_stats_def to_float_def
        training_stats_def subscript_def int_truediv_def finite_or_overflow_def fsub_def fneg_def
        float_truediv_def a b fabs_def float_gt_def)
  have ne: "drift_msg \<noteq> stable_msg" by (simp add: drift_msg_def stable_msg_def)
  have gen: "check_data_drift (Parsed j) ts =
        Report (Fin m) (Fin mean) (ieee_div (fsub (Fin mean) (Fin m)) (Fin s))
          (if float_gt (fabs (ieee_div (fsub (Fin mean) (Fin m)) (Fin s))) 2
           then drift_msg else stable_msg)"
    if "subscript j ''mean_duration'' = Inr (JFloat (Fin m))"
      "subscript j ''std_duration'' = Inr (JFloat (Fin s))" "0 < s" "ts \<noteq> []"
      "rnd (of_int (sum_list ts) / of_nat (length ts)) = Fin mean"
    using that
    by (simp add: check_data_drift_def drift_body_def raising_def load_stats_def to_float_def
        int_truediv_def finite_or_overflow_def float_truediv_def)
  have fin: "ieee_div (fsub (Fin mean) (Fin m)) (Fin s) = Fin z \<and>
             float_gt (fabs (Fin z)) 2 = (2 < \<bar>z\<bar>)"
    if "rnd (mean - m) = Fin d" "rnd (d / s) = Fin z" for d z
    using that by (simp add: fsub_def fneg_def fabs_def float_gt_def)
  show ?thesis
    using ex1 ex2 ne gen fin by (auto simp del: ieee_div.simps)
qed

text \<open>
  A batch of three durations with mean 115 against the baseline 90, 10.
\<close>

theorem drift_decision_rule_witness:
  "subscript (JObj [(''mean_duration'', JFloat (Fin 90)), (''std_duration'', JFloat (Fin 10))])
     ''mean_duration'' = Inr (JFloat (Fin 90)) \<and>
   subscript (JObj [(''mean_duration'', JFloat (Fin 90)), (''std_duration'', JFloat (Fin 10))])
     ''std_duration'' = Inr (JFloat (Fin 10)) \<and>
   (0::real) < 10 \<and> [100, 105, 140] \<noteq> ([] :: int list) \<and>
   rnd (of_int (sum_list [100, 105, 140]) / of_nat (length [100, 105, 140 :: int])) = Fin 115 \<and>
   rnd (115 - 90) = Fin 25 \<and> rnd (25 / 10) = Fin 2.5 \<and>
   check_data_drift
     (Parsed (JObj [(''mean_duration'', JFloat (Fin 90)), (''std_duration'', JFloat (Fin 10))]))
     [100, 105, 140] = Report (Fin 90) (Fin 115) (Fin 2.5) drift_msg"
proof -
  let ?j = "JObj [(''mean_duration'', JFloat (Fin 90)), (''std_duration'', JFloat (Fin 10))]"
  have h1: "subscript ?j ''mean_duration'' = Inr (JFloat (Fin 90))" by (simp add: subscript_def)
  have h2: "subscript ?j ''std_duration'' = Inr (JFloat (Fin 10))" by (simp add: subscript_def)
  have h3: "rnd (of_int (sum_list [100, 105, 140]) / of_nat (length [100, 105, 140 :: int])) = Fin 115"
    by (simp add: rnd_numeral)
  have h4: "rnd (115 - 90) = Fin 25" by (simp add: rnd_numeral)
  have h5: "rnd (25 / 10) = Fin 2.5" using rnd_half[of 5] by simp
  have pre: "subscript ?j ''mean_duration'' = Inr (JFloat (Fin 90)) \<and>
    subscript ?j ''std_duration'' = Inr (JFloat (Fin 10)) \<and> (0::real) < 10 \<and>
    [100, 105, 140] \<noteq> ([] :: int list) \<and>
    rnd (of_int (sum_list [100, 105, 140]) / of_nat (length [100, 105, 140 :: int])) = Fin 115"
    using h1 h2 h3 by simp
  from drift_decision_rule[of ?j 90 10 "[100, 105, 140]" 115] pre
  have "\<forall>d z. rnd (115 - 90) = Fin d \<and> rnd (d / 10) = Fin z \<longrightarrow>
         check_data_drift (Parsed ?j) [100, 105, 140] =
           Report (Fin 90) (Fin 115) (Fin z) (if 2 < \<bar>z\<bar> then drift_msg else stable_msg)"
    by blast
  with h4 h5 have "check_data_drift (Parsed ?j) [100, 105, 140] =
      Report (Fin 90) (Fin 115) (Fin 2.5) (if 2 < \<bar>2.5 :: real\<bar> then drift_msg else stable_msg)"
    by blast
  then show ?thesis using pre h4 h5 by simp
qed

text \<open>
  The rule does not hold for every non-empty batch: the mean of the batch
  \<^verbatim>\<open>[10**400]\<close> is too large for a float, and the monitor returns the error text.
\<close>

theorem overflowing_batch_counterexample:
  "check_data_drift (training_stats 90 10) [10 ^ 400] = Error_checking_drift OverflowError"
  by (simp add: check_data_drift_def drift_body_def raising_def load_stats_def
        training_stats_def subscript_def int_truediv_overflow)

text \<open>
  C7, as the code has it. The monitor returns the error text, never an exception: for an
  empty batch whatever the file (a division by zero when the statistics are usable), for
  a file that cannot be opened or that the parser rejects, and for a parsed value in
  which a key is absent or does not hold a number. A file with \<^verbatim>\<open>NaN\<close> in place of the
  mean is accepted by the parser and gets a report with the stable sentence.
\<close>

theorem drift_errors_are_results:
  "(\<exists>e. check_data_drift f [] = Error_checking_drift e) \<and>
   (well_formed_stats j \<longrightarrow> check_data_drift (Parsed j) [] = Error_checking_drift ZeroDivisionError) \<and>
   check_data_drift (Unreadable e) ts = Error_checking_drift e \<and>
   (\<not> well_formed_stats j \<longrightarrow> (\<exists>e. check_data_drift (Parsed j) ts = Error_checking_drift e)) \<and>
   check_data_drift (Parsed nan_stats) [100] = Report NaN (Fin 100) NaN stable_msg"
proof -
  have a: "\<exists>e. check_data_drift f [] = Error_checking_drift e"
    by (simp add: check_data_drift_def drift_body_def raising_def int_truediv_def split: sum.splits)
  have b: "well_formed_stats j \<Longrightarrow> check_data_drift (Parsed j) [] = Error_checking_drift ZeroDivisionError"
    by (simp add: check_data_drift_def drift_body_def raising_def int_truediv_def load_stats_def
        well_formed_stats_def split: sum.splits)
  have c: "check_data_drift (Unreadable e) ts = Error_checking_drift e"
    by (simp add: check_data_drift_def drift_body_def raising_def load_stats_def)
  have d: "\<not> well_formed_stats j \<Longrightarrow> \<exists>e. check_data_drift (Parsed j) ts = Error_checking_drift e"
    by (auto simp add: check_data_drift_def drift_body_def raising_def load_stats_def
        well_formed_stats_def is_number_def to_float_def split: sum.splits json.splits)
  have r: "rnd 100 = Fin 100" "rnd 10 = Fin 10" by (simp_all add: rnd_numeral)
  have n: "check_data_drift (Parsed nan_stats) [100] = Report NaN (Fin 100) NaN stable_msg"
    by (simp add: check_data_drift_def drift_body_def raising_def load_stats_def nan_stats_def
        subscript_def int_truediv_def int_to_float_def finite_or_overflow_def to_float_def r
        fsub_def fneg_def float_truediv_def fabs_def float_gt_def)
  from a b c d n show ?thesis by blast
qed

text \<open>
  An empty batch against usable statistics, a statistics object without its standard
  deviation, a missing file and a file that is not JSON.
\<close>

theorem drift_errors_are_results_witness:
  "well_formed_stats (JObj [(''mean_duration'', JFloat (Fin 90)), (''std_duration'', JFloat (Fin 10))]) \<and>
   check_data_drift
     (Parsed (JObj [(''mean_duration'', JFloat (Fin 90)), (''std_duration'', JFloat (Fin 10))])) []
     = Error_checking_drift ZeroDivisionError \<and>
   \<not> well_formed_stats (JObj [(''mean_duration'', JFloat (Fin 90))]) \<and>
   (\<exists>e. check_data_drift (Parsed (JObj [(''mean_duration'', JFloat (Fin 90))])) [100, 105, 140]
     = Error_checking_drift e) \<and>
   check_data_drift (Parsed (JObj [(''mean_duration'', JFloat (Fin 90))])) [100, 105, 140]
     = Error_checking_drift (KeyError ''std_duration'') \<and>
   check_data_drift (Unreadable FileNotFoundError) [100, 105, 140]
     = Error_checking_drift FileNotFoundError \<and>
   check_data_drift (Unreadable JSONDecodeError) [100, 105, 140]
     = Error_checking_drift JSONDecodeError"
proof -
  let ?good = "JObj [(''mean_duration'', JFloat (Fin 90)), (''std_duration'', JFloat (Fin 10))]"
  let ?bad = "JObj [(''mean_duration'', JFloat (Fin 90))]"
  have h1: "well_formed_stats ?good"
    by (simp add: well_formed_stats_def subscript_def is_number_def)
  have h2: "\<not> well_formed_stats ?bad"
    by (simp add: well_formed_stats_def subscript_def)
  have k: "check_data_drift (Parsed ?bad) [100, 105, 140]
     = Error_checking_drift (KeyError ''std_duration'')"
    by (simp add: check_data_drift_def drift_body_def raising_def load_stats_def subscript_def)
  from drift_errors_are_results [of "Parsed ?good" ?good FileNotFoundError "[100, 105, 140]"]
  have a: "check_data_drift (Parsed ?good) [] = Error_checking_drift ZeroDivisionError"
    and f: "check_data_drift (Unreadable FileNotFoundError) [100, 105, 140]
              = Error_checking_drift FileNotFoundError"
    using h1 by blast+
  from drift_errors_are_results [of "Parsed ?good" ?bad JSONDecodeError "[100, 105, 140]"]
  have b: "\<exists>e. check_data_drift (Parsed ?bad) [100, 105, 140] = Error_checking_drift e"
    and j: "check_data_drift (Unreadable JSONDecodeError) [100, 105, 140]
              = Error_checking_drift JSONDecodeError"
    using h2 by blast+
  from h1 h2 k a b f j show ?thesis by blast
qed

text \<open>
  A malformed file does not always give the error text: the file with \<^verbatim>\<open>NaN\<close> as mean,
  which is not JSON, gets the stable report, and a file with \<^verbatim>\<open>true\<close> as mean is read as
  mean 1.
\<close>

theorem nan_statistics_counterexample:
  "check_data_drift (Parsed nan_stats) [100] = Report NaN (Fin 100) NaN stable_msg \<and>
   check_data_drift (Parsed (JObj [(''mean_duration'', JBool True), (''std_duration'', JInt 11)])) [100]
     = Report (Fin 1) (Fin 100) (Fin 9) drift_msg"
proof -
  have r: "rnd 100 = Fin 100" "rnd 10 = Fin 10" "rnd 11 = Fin 11" "rnd 99 = Fin 99" "rnd 9 = Fin 9"
    by (simp_all add: rnd_numeral)
  show ?thesis
    by (simp add: check_data_drift_def drift_body_def raising_def load_stats_def nan_stats_def
        subscript_def int_truediv_def int_to_float_def finite_or_overflow_def to_float_def r
        fsub_def fneg_def float_truediv_def fabs_def float_gt_def)
qed

section \<open>Properties of the distance tool\<close>




section \<open>Properties of the generator\<close>

text \<open>
  C8. Every row the generator appends has a duration of at least 5 minutes and a
  non-negative distance, whatever the draws were; and for draws the samplers can deliver
  the generator does produce one row per iteration.
\<close>

theorem generated_rows_invariant:
  "(generate_data ds = Inr data \<longrightarrow>
      (\<forall>r \<in> set data. 5 \<le> delivery_duration_mins r \<and> 0 \<le> trip.distance_km r)) \<and>
   ((\<forall>d \<in> set ds. valid_draws d) \<longrightarrow>
      (\<exists>rows. generate_data ds = Inr rows \<and> length rows = length ds))"
  using generate_loop_inv[of 0 ds "[]" data] generate_loop_total[of ds 0 "[]"]
  by (simp add: generate_data_def)

text \<open>
  One iteration on the sample outcome: a row of distance 0 and duration 5.
\<close>

theorem generated_rows_invariant_witness:
  "valid_draws sample_draws \<and>
   (\<exists>row. generate_data [sample_draws] = Inr [row] \<and>
          delivery_duration_mins row = 5 \<and> trip.distance_km row = 0 \<and>
          5 \<le> delivery_duration_mins row \<and> 0 \<le> trip.distance_km row)"
proof -
  have v: "valid_draws sample_draws"
    by (simp add: valid_draws_def sample_draws_def DISTRICTS_def WEATHER_def VEHICLES_def
        DRIVER_EXP_def is_rush_hour_def)
  from generated_rows_invariant [of "[sample_draws]"] v
  obtain rows where t: "generate_data [sample_draws] = Inr rows" "length rows = length [sample_draws]"
    by auto
  have "\<exists>row. generate_data [sample_draws] = Inr [row] \<and>
          delivery_duration_mins row = 5 \<and> trip.distance_km row = 0"
    by (simp add: generate_data_def generate_row_def raising_def sample_draws_def district_def
        DISTRICTS_def haversine_def haversine_a_same math_sqrt_def atan2_def replace_time_def
        Let_def py_round_zero py_int_def py_max_def speed_of_def multipliers_of_def)
  then obtain row where g: "generate_data [sample_draws] = Inr [row]"
    and r: "delivery_duration_mins row = 5" "trip.distance_km row = 0"
    by blast
  from generated_rows_invariant [of "[sample_draws]" "[row]"] g
  have i: "5 \<le> delivery_duration_mins row \<and> 0 \<le> trip.distance_km row"
    by simp
  from v g r i show ?thesis by blast
qed

end
